theory Spec2Isabelle
  imports Complex_Main
begin

section \<open>Values, errors and the random stream\<close>

text \<open>
  The generator computes with Python floats. A float is modelled as a real number or the
  not-a-number marker; rounding is not modelled. Every comparison with \<open>NaN\<close> is false,
  as in Python and numpy.
\<close>

datatype pyfloat = NaN | Fin real

fun isnan :: "pyfloat \<Rightarrow> bool" where
  "isnan NaN = True"
| "isnan (Fin x) = False"

fun py_gt :: "pyfloat \<Rightarrow> pyfloat \<Rightarrow> bool" where
  "py_gt (Fin a) (Fin b) = (b < a)"
| "py_gt NaN b = False"
| "py_gt a NaN = False"

text \<open>
  Python's built-in \<^verbatim>\<open>max(a, b)\<close> keeps its first argument and replaces it by
  the second one only when \<^verbatim>\<open>b > a\<close> holds.
\<close>

definition py_max :: "pyfloat \<Rightarrow> pyfloat \<Rightarrow> pyfloat" where
  "py_max a b = (if py_gt b a then b else a)"

text \<open>
  \<^verbatim>\<open>np.clip(x, lo, hi)\<close> is \<^verbatim>\<open>minimum(maximum(x, lo), hi)\<close>; numpy's
  minimum and maximum propagate not-a-number.
\<close>

fun np_clip :: "pyfloat \<Rightarrow> real \<Rightarrow> real \<Rightarrow> pyfloat" where
  "np_clip NaN lo hi = NaN"
| "np_clip (Fin x) lo hi = Fin (min (max x lo) hi)"

datatype error = ValueError | KeyError | OverflowError

text \<open>
  The global numpy generator is an explicit state: an unknown sequence of raw draws and
  the position of the next one. Each call of \<^verbatim>\<open>np.random.*\<close> consumes one raw
  draw and reads from it the variate of its own distribution: a standard normal deviate,
  a uniform number of \<open>[0, 1)\<close>, or raw bits reduced to the requested integer range.
\<close>

record draw =
  gauss :: real
  unif :: real
  bits :: nat

record rng =
  source :: "nat \<Rightarrow> draw"
  pos :: nat

definition advance :: "rng \<Rightarrow> rng" where
  "advance g = g\<lparr>pos := Suc (pos g)\<rparr>"

definition np_random_normal :: "real \<Rightarrow> real \<Rightarrow> rng \<Rightarrow> real \<times> rng" where
  "np_random_normal loc scale g = (loc + scale * gauss (source g (pos g)), advance g)"

definition np_random_random :: "rng \<Rightarrow> real \<times> rng" where
  "np_random_random g = (unif (source g (pos g)), advance g)"

text \<open>\<^verbatim>\<open>np.random.randint(low, high)\<close> raises ValueError when \<open>low >= high\<close>.\<close>

definition np_random_randint :: "int \<Rightarrow> int \<Rightarrow> rng \<Rightarrow> error + (int \<times> rng)" where
  "np_random_randint low high g =
     (if high \<le> low then Inl ValueError
      else Inr (low + int (bits (source g (pos g))) mod (high - low), advance g))"

section \<open>Dates\<close>

text \<open>
  A \<^verbatim>\<open>datetime\<close> at midnight is its proleptic Gregorian ordinal (day 1 is
  0001-01-01), computed as the standard library does. Adding a \<^verbatim>\<open>timedelta\<close>
  raises OverflowError outside 0001-01-01 .. 9999-12-31.
\<close>

type_synonym datetime = int

definition is_leap :: "int \<Rightarrow> bool" where
  "is_leap y = (y mod 4 = 0 \<and> (y mod 100 \<noteq> 0 \<or> y mod 400 = 0))"

definition days_before_year :: "int \<Rightarrow> int" where
  "days_before_year y = (y - 1) * 365 + (y - 1) div 4 - (y - 1) div 100 + (y - 1) div 400"

definition days_in_month :: "int \<Rightarrow> int list" where
  "days_in_month y = [31, if is_leap y then 29 else 28, 31, 30, 31, 30, 31, 31, 30, 31, 30, 31]"

definition days_before_month :: "int \<Rightarrow> nat \<Rightarrow> int" where
  "days_before_month y m = sum_list (take (m - 1) (days_in_month y))"

definition ymd2ord :: "int \<Rightarrow> nat \<Rightarrow> int \<Rightarrow> datetime" where
  "ymd2ord y m d = days_before_year y + days_before_month y m + d"

definition max_ordinal :: datetime where
  "max_ordinal = ymd2ord 9999 12 31"

definition start_date :: datetime where
  "start_date = ymd2ord 2024 1 1"

definition add_days :: "datetime \<Rightarrow> int \<Rightarrow> error + datetime" where
  "add_days d i = (if 1 \<le> d + i \<and> d + i \<le> max_ordinal then Inr (d + i) else Inl OverflowError)"

text \<open>Line 110: \<^verbatim>\<open>[start_date + timedelta(days=i) for i in range(num_days)]\<close>.\<close>

fun date_list :: "nat list \<Rightarrow> error + datetime list" where
  "date_list [] = Inr []"
| "date_list (i # rest) =
     (case add_days start_date (int i) of
        Inl err \<Rightarrow> Inl err
      | Inr d \<Rightarrow> (case date_list rest of Inl err \<Rightarrow> Inl err | Inr ds \<Rightarrow> Inr (d # ds)))"

definition make_dates :: "int \<Rightarrow> error + datetime list" where
  "make_dates num_days = date_list [0..<nat num_days]"

section \<open>Configuration tables\<close>

record device_char =
  hr_hours_per_day :: real
  hrv_hours_per_day :: real
  spo2_hours_per_day :: real
  has_spo2 :: bool

definition DEVICE_CHARACTERISTICS :: "(string \<times> device_char) list" where
  "DEVICE_CHARACTERISTICS =
     [(''Apple Watch'', \<lparr>hr_hours_per_day = 143 / 10, hrv_hours_per_day = 49 / 10,
                         spo2_hours_per_day = 468 / 100, has_spo2 = True\<rparr>),
      (''Fitbit'', \<lparr>hr_hours_per_day = 19, hrv_hours_per_day = 764 / 100,
                    spo2_hours_per_day = 0, has_spo2 = False\<rparr>),
      (''Oura Ring'', \<lparr>hr_hours_per_day = 11, hrv_hours_per_day = 843 / 100,
                       spo2_hours_per_day = 0, has_spo2 = False\<rparr>)]"

text \<open>\<^verbatim>\<open>DEVICE_CHARACTERISTICS[device]\<close> raises KeyError on an unknown device.\<close>

definition device_lookup :: "string \<Rightarrow> error + device_char" where
  "device_lookup device =
     (case map_of DEVICE_CHARACTERISTICS device of None \<Rightarrow> Inl KeyError | Some c \<Rightarrow> Inr c)"

text \<open>One entry per physiological channel, in the order of the source's tables.\<close>

record 'a channels =
  rhr :: 'a
  hr :: 'a
  hrv_sdnn :: 'a
  hrv_rmssd :: 'a
  steps :: 'a
  spo2 :: 'a
  sleep_hours :: 'a
  sleep_efficiency :: 'a

record param =
  mean :: real
  std :: real

definition BASELINE_PARAMS :: "param channels" where
  "BASELINE_PARAMS =
     \<lparr>rhr = \<lparr>mean = 65, std = 8\<rparr>,
      hr = \<lparr>mean = 75, std = 10\<rparr>,
      hrv_sdnn = \<lparr>mean = 40, std = 12\<rparr>,
      hrv_rmssd = \<lparr>mean = 35, std = 10\<rparr>,
      steps = \<lparr>mean = 8000, std = 2500\<rparr>,
      spo2 = \<lparr>mean = 975 / 10, std = 8 / 10\<rparr>,
      sleep_hours = \<lparr>mean = 72 / 10, std = 1\<rparr>,
      sleep_efficiency = \<lparr>mean = 85, std = 5\<rparr>\<rparr>"

definition FLARE_CHANGES :: "real channels" where
  "FLARE_CHANGES =
     \<lparr>rhr = 8, hr = 10, hrv_sdnn = - (30 / 100), hrv_rmssd = - (25 / 100),
      steps = - (40 / 100), spo2 = - (2 / 10), sleep_hours = - 1, sleep_efficiency = - 15\<rparr>"

section \<open>The timeline generator\<close>

text \<open>
  The data frame is built from thirteen parallel columns that grow by one entry per day;
  it is modelled as the list of its rows. The two labels are Python integers.
\<close>

record daily_record = "pyfloat channels" +
  patient_id :: string
  date :: datetime
  device :: string
  in_flare :: int
  days_to_flare :: int

text \<open>Lines 113-116: one normal draw per channel, in the order of the table.\<close>

definition draw_baseline :: "rng \<Rightarrow> real channels \<times> rng" where
  "draw_baseline g0 =
     (let (v1, g1) = np_random_normal (mean (rhr BASELINE_PARAMS)) (std (rhr BASELINE_PARAMS)) g0;
          (v2, g2) = np_random_normal (mean (hr BASELINE_PARAMS)) (std (hr BASELINE_PARAMS)) g1;
          (v3, g3) = np_random_normal (mean (hrv_sdnn BASELINE_PARAMS)) (std (hrv_sdnn BASELINE_PARAMS)) g2;
          (v4, g4) = np_random_normal (mean (hrv_rmssd BASELINE_PARAMS)) (std (hrv_rmssd BASELINE_PARAMS)) g3;
          (v5, g5) = np_random_normal (mean (steps BASELINE_PARAMS)) (std (steps BASELINE_PARAMS)) g4;
          (v6, g6) = np_random_normal (mean (spo2 BASELINE_PARAMS)) (std (spo2 BASELINE_PARAMS)) g5;
          (v7, g7) = np_random_normal (mean (sleep_hours BASELINE_PARAMS)) (std (sleep_hours BASELINE_PARAMS)) g6;
          (v8, g8) = np_random_normal (mean (sleep_efficiency BASELINE_PARAMS)) (std (sleep_efficiency BASELINE_PARAMS)) g7
      in (\<lparr>rhr = v1, hr = v2, hrv_sdnn = v3, hrv_rmssd = v4, steps = v5, spo2 = v6,
           sleep_hours = v7, sleep_efficiency = v8\<rparr>, g8))"

text \<open>Lines 126-132: the loop that draws the episodes, in generation order.\<close>

fun flare_loop :: "nat \<Rightarrow> int \<Rightarrow> rng \<Rightarrow> error + ((int \<times> int) list \<times> rng)" where
  "flare_loop 0 num_days g = Inr ([], g)"
| "flare_loop (Suc k) num_days g =
     (case np_random_randint 7 22 g of
        Inl err \<Rightarrow> Inl err
      | Inr (flare_duration, g1) \<Rightarrow>
          (case np_random_randint 30 (num_days - flare_duration - 30) g1 of
             Inl err \<Rightarrow> Inl err
           | Inr (flare_start, g2) \<Rightarrow>
               (case flare_loop k num_days g2 of
                  Inl err \<Rightarrow> Inl err
                | Inr (rest, g3) \<Rightarrow> Inr ((flare_start, flare_start + flare_duration) # rest, g3))))"

text \<open>Lines 119-134.\<close>

definition schedule_flares :: "int \<Rightarrow> rng \<Rightarrow> error + ((int \<times> int) list \<times> rng)" where
  "schedule_flares num_days g =
     (let (u, g1) = np_random_random g in
      if u < 1 / 2 then
        (case np_random_randint 1 4 g1 of
           Inl err \<Rightarrow> Inl err
         | Inr (num_flares, g2) \<Rightarrow> flare_loop (nat num_flares) num_days g2)
      else Inr ([], g1))"

text \<open>Line 156.\<close>

definition is_flare_day :: "int \<Rightarrow> (int \<times> int) list \<Rightarrow> bool" where
  "is_flare_day day_idx flare_periods =
     list_ex (\<lambda>(start, stop). start \<le> day_idx \<and> day_idx < stop) flare_periods"

text \<open>Lines 159-163: the scan stops at the first episode that starts after the day.\<close>

fun days_to_next_flare :: "int \<Rightarrow> (int \<times> int) list \<Rightarrow> int" where
  "days_to_next_flare day_idx [] = - 1"
| "days_to_next_flare day_idx ((start, stop) # rest) =
     (if day_idx < start then start - day_idx else days_to_next_flare day_idx rest)"

text \<open>Lines 166-173.\<close>

definition flare_progress :: "int \<Rightarrow> bool \<Rightarrow> real" where
  "flare_progress to_next flare_day =
     (if 0 < to_next \<and> to_next \<le> 49 then 1 - real_of_int to_next / 49
      else if flare_day then 1 else 0)"

text \<open>Lines 176-183.\<close>

definition flare_effects :: "real channels \<Rightarrow> real \<Rightarrow> real channels" where
  "flare_effects patient_baseline progress =
     \<lparr>rhr = rhr patient_baseline + rhr FLARE_CHANGES * progress,
      hr = hr patient_baseline + hr FLARE_CHANGES * progress,
      hrv_sdnn = hrv_sdnn patient_baseline * (1 + hrv_sdnn FLARE_CHANGES * progress),
      hrv_rmssd = hrv_rmssd patient_baseline * (1 + hrv_rmssd FLARE_CHANGES * progress),
      steps = steps patient_baseline * (1 + steps FLARE_CHANGES * progress),
      spo2 = spo2 patient_baseline + spo2 FLARE_CHANGES * progress,
      sleep_hours = sleep_hours patient_baseline + sleep_hours FLARE_CHANGES * progress,
      sleep_efficiency =
        sleep_efficiency patient_baseline + sleep_efficiency FLARE_CHANGES * progress\<rparr>"

text \<open>Lines 154-183 for one day: the values before the noise is added.\<close>

definition pre_noise :: "real channels \<Rightarrow> (int \<times> int) list \<Rightarrow> int \<Rightarrow> real channels" where
  "pre_noise patient_baseline flare_periods day_idx =
     flare_effects patient_baseline
       (flare_progress (days_to_next_flare day_idx flare_periods)
          (is_flare_day day_idx flare_periods))"

text \<open>Lines 186-193.\<close>

definition daily_noise :: "real channels \<Rightarrow> rng \<Rightarrow> real channels \<times> rng" where
  "daily_noise v g0 =
     (let (n1, g1) = np_random_normal 0 2 g0;
          (n2, g2) = np_random_normal 0 3 g1;
          (n3, g3) = np_random_normal 0 3 g2;
          (n4, g4) = np_random_normal 0 (25 / 10) g3;
          (n5, g5) = np_random_normal 0 1000 g4;
          (n6, g6) = np_random_normal 0 (3 / 10) g5;
          (n7, g7) = np_random_normal 0 (1 / 2) g6;
          (n8, g8) = np_random_normal 0 3 g7
      in (\<lparr>rhr = rhr v + n1, hr = hr v + n2, hrv_sdnn = hrv_sdnn v + n3,
           hrv_rmssd = hrv_rmssd v + n4, steps = steps v + n5, spo2 = spo2 v + n6,
           sleep_hours = sleep_hours v + n7, sleep_efficiency = sleep_efficiency v + n8\<rparr>, g8))"

text \<open>Lines 196-212: a day the device missed, and a device without the oxygen sensor.\<close>

definition all_nan :: "pyfloat channels" where
  "all_nan = \<lparr>rhr = NaN, hr = NaN, hrv_sdnn = NaN, hrv_rmssd = NaN, steps = NaN, spo2 = NaN,
              sleep_hours = NaN, sleep_efficiency = NaN\<rparr>"

definition as_floats :: "real channels \<Rightarrow> pyfloat channels" where
  "as_floats v = \<lparr>rhr = Fin (rhr v), hr = Fin (hr v), hrv_sdnn = Fin (hrv_sdnn v),
                  hrv_rmssd = Fin (hrv_rmssd v), steps = Fin (steps v), spo2 = Fin (spo2 v),
                  sleep_hours = Fin (sleep_hours v),
                  sleep_efficiency = Fin (sleep_efficiency v)\<rparr>"

definition missingness :: "device_char \<Rightarrow> real channels \<Rightarrow> rng \<Rightarrow> pyfloat channels \<times> rng" where
  "missingness device_char v g =
     (let measurement_probability = hr_hours_per_day device_char / 24;
          (u, g1) = np_random_random g;
          w = (if measurement_probability < u then all_nan else as_floats v);
          w' = (if \<not> has_spo2 device_char then w\<lparr>spo2 := NaN\<rparr> else w)
      in (w', g1))"

text \<open>Lines 215-227: the row that is appended to the columns.\<close>

definition store_row ::
  "string \<Rightarrow> datetime \<Rightarrow> string \<Rightarrow> pyfloat channels \<Rightarrow> bool \<Rightarrow> int \<Rightarrow> daily_record" where
  "store_row pid d dev w flare_day to_next =
     \<lparr>rhr = py_max (Fin 40) (rhr w),
      hr = py_max (Fin 50) (hr w),
      hrv_sdnn = py_max (Fin 5) (hrv_sdnn w),
      hrv_rmssd = py_max (Fin 5) (hrv_rmssd w),
      steps = py_max (Fin 0) (steps w),
      spo2 = (if \<not> isnan (spo2 w) then np_clip (spo2 w) 90 100 else NaN),
      sleep_hours = np_clip (sleep_hours w) 3 12,
      sleep_efficiency = np_clip (sleep_efficiency w) 40 100,
      patient_id = pid, date = d, device = dev,
      in_flare = (if flare_day then 1 else 0),
      days_to_flare = to_next\<rparr>"

text \<open>Lines 154-227: the body of the loop over the days.\<close>

definition generate_day ::
  "string \<Rightarrow> string \<Rightarrow> real channels \<Rightarrow> (int \<times> int) list \<Rightarrow> int \<Rightarrow> datetime \<Rightarrow> rng
     \<Rightarrow> error + (daily_record \<times> rng)" where
  "generate_day pid dev patient_baseline flare_periods day_idx d g =
     (let (v, g1) = daily_noise (pre_noise patient_baseline flare_periods day_idx) g in
      case device_lookup dev of
        Inl err \<Rightarrow> Inl err
      | Inr device_char \<Rightarrow>
          (let (w, g2) = missingness device_char v g1 in
           Inr (store_row pid d dev w (is_flare_day day_idx flare_periods)
                  (days_to_next_flare day_idx flare_periods), g2)))"

fun day_loop ::
  "string \<Rightarrow> string \<Rightarrow> real channels \<Rightarrow> (int \<times> int) list \<Rightarrow> (nat \<times> datetime) list \<Rightarrow> rng
     \<Rightarrow> error + (daily_record list \<times> rng)" where
  "day_loop pid dev patient_baseline flare_periods [] g = Inr ([], g)"
| "day_loop pid dev patient_baseline flare_periods ((day_idx, d) # rest) g =
     (case generate_day pid dev patient_baseline flare_periods (int day_idx) d g of
        Inl err \<Rightarrow> Inl err
      | Inr (row, g1) \<Rightarrow>
          (case day_loop pid dev patient_baseline flare_periods rest g1 of
             Inl err \<Rightarrow> Inl err
           | Inr (rows, g2) \<Rightarrow> Inr (row # rows, g2)))"

text \<open>
  Lines 95-229. Besides the rows, the model returns the episodes that were scheduled
  (a local variable of the source) and the generator state left behind.
\<close>

definition generate_patient_timeline ::
  "string \<Rightarrow> int \<Rightarrow> string \<Rightarrow> rng \<Rightarrow> error + (daily_record list \<times> (int \<times> int) list \<times> rng)" where
  "generate_patient_timeline pid num_days dev g =
     (case make_dates num_days of
        Inl err \<Rightarrow> Inl err
      | Inr dates \<Rightarrow>
          (let (patient_baseline, g1) = draw_baseline g in
           case schedule_flares num_days g1 of
             Inl err \<Rightarrow> Inl err
           | Inr (flare_periods, g2) \<Rightarrow>
               (case day_loop pid dev patient_baseline flare_periods (enumerate 0 dates) g2 of
                  Inl err \<Rightarrow> Inl err
                | Inr (rows, g3) \<Rightarrow> Inr (rows, flare_periods, g3))))"

section \<open>Reading a result, and a concrete run\<close>

text \<open>The rows and the episodes of a call that returned; nothing for a call that raised.\<close>

definition rows_of :: "error + (daily_record list \<times> (int \<times> int) list \<times> rng) \<Rightarrow> daily_record list" where
  "rows_of res = (case res of Inl err \<Rightarrow> [] | Inr (rows, flare_periods, g) \<Rightarrow> rows)"

definition periods_of :: "error + (daily_record list \<times> (int \<times> int) list \<times> rng) \<Rightarrow> (int \<times> int) list" where
  "periods_of res = (case res of Inl err \<Rightarrow> [] | Inr (rows, flare_periods, g) \<Rightarrow> flare_periods)"

text \<open>
  A random stream for concrete runs. Draws 0-7 are the baseline, draw 8 (\<open>1/4 < 0.5\<close>)
  switches the flares on, draw 9 gives one episode, draw 10 the duration \<open>7 + 3 = 10\<close>,
  draw 11 the start \<open>30 + 10 = 40\<close> (on a 90-day timeline). Day \<open>k\<close> then consumes the
  draws \<open>12 + 9 k, ..., 20 + 9 k\<close>, the last one for the missingness test: day 0 is
  missed (\<open>9/10\<close> exceeds every coverage fraction), every other day is measured.
\<close>

definition scenario_source :: "nat \<Rightarrow> draw" where
  "scenario_source n =
     \<lparr>gauss = (real (n mod 5) - 2) / 4,
      unif = (if n = 20 then 9 / 10 else 1 / 4),
      bits = (if n = 10 then 3 else if n = 11 then 10 else 0)\<rparr>"

definition scenario_rng :: rng where
  "scenario_rng = \<lparr>source = scenario_source, pos = 0\<rparr>"

definition scenario_run :: "error + (daily_record list \<times> (int \<times> int) list \<times> rng)" where
  "scenario_run = generate_patient_timeline ''P001'' 90 ''Fitbit'' scenario_rng"

section \<open>Basic facts about the generator\<close>


lemma start_date_eq: "start_date = 738886"
  by (simp add: start_date_def ymd2ord_def days_before_year_def days_before_month_def)

lemma max_ordinal_eq: "max_ordinal = 3652059"
  by (simp add: max_ordinal_def ymd2ord_def days_before_year_def days_before_month_def days_in_month_def is_leap_def)

lemma date_list_Inr: "date_list ks = Inr ds \<Longrightarrow> ds = map (\<lambda>i. start_date + int i) ks"
  by (induction ks arbitrary: ds) (auto simp: add_days_def split: sum.splits if_splits)

lemma date_list_total:
  "(\<forall>i\<in>set ks. int i \<le> 2913173) \<Longrightarrow> \<exists>ds. date_list ks = Inr ds"
  by (induction ks) (auto simp: add_days_def start_date_eq max_ordinal_eq)

lemma make_dates_Inr:
  "make_dates n = Inr ds \<Longrightarrow> ds = map (\<lambda>i. start_date + int i) [0..<nat n]"
  unfolding make_dates_def by (rule date_list_Inr)

lemma make_dates_total: "n \<le> 2913174 \<Longrightarrow> \<exists>ds. make_dates n = Inr ds"
  unfolding make_dates_def by (rule date_list_total) auto

lemma draw_baseline_state: "snd (draw_baseline g) = g\<lparr>pos := pos g + 8\<rparr>"
  by (simp add: draw_baseline_def np_random_normal_def advance_def Let_def)

lemma daily_noise_state: "snd (daily_noise v g) = g\<lparr>pos := pos g + 8\<rparr>"
  by (simp add: daily_noise_def np_random_normal_def advance_def Let_def)

lemma missingness_state: "snd (missingness dc v g) = g\<lparr>pos := Suc (pos g)\<rparr>"
  by (simp add: missingness_def np_random_random_def advance_def Let_def)

lemma generate_day_Inr:
  "device_lookup dev = Inr dc \<Longrightarrow>
   generate_day pid dev bl ps day d g =
     Inr (store_row pid d dev
            (fst (missingness dc (fst (daily_noise (pre_noise bl ps day) g)) (g\<lparr>pos := pos g + 8\<rparr>)))
            (is_flare_day day ps) (days_to_next_flare day ps),
          g\<lparr>pos := pos g + 9\<rparr>)"
  using daily_noise_state [of "pre_noise bl ps day" g]
    missingness_state [of dc "fst (daily_noise (pre_noise bl ps day) g)" "g\<lparr>pos := pos g + 8\<rparr>"]
  by (simp add: generate_day_def split_beta Let_def)

lemma generate_day_Inl:
  "device_lookup dev = Inl err \<Longrightarrow> generate_day pid dev bl ps day d g = Inl err"
  by (simp add: generate_day_def split_beta Let_def)

lemma generate_day_known:
  "generate_day pid dev bl ps day d g = Inr (r, g') \<Longrightarrow> \<exists>dc. device_lookup dev = Inr dc"
  by (cases "device_lookup dev") (simp_all add: generate_day_Inl)

lemma generate_day_state:
  "generate_day pid dev bl ps day d g = Inr (r, g') \<Longrightarrow> g' = g\<lparr>pos := pos g + 9\<rparr>"
  by (cases "device_lookup dev") (simp_all add: generate_day_Inl generate_day_Inr)

lemma day_loop_total:
  "device_lookup dev = Inr dc \<Longrightarrow> \<exists>rows g'. day_loop pid dev bl ps days g = Inr (rows, g')"
proof (induction days arbitrary: g)
  case Nil
  show ?case by simp
next
  case (Cons a days)
  obtain i d where a: "a = (i, d)" by (cases a)
  from Cons.prems obtain r g1 where
    r: "generate_day pid dev bl ps (int i) d g = Inr (r, g1)"
    by (simp add: generate_day_Inr)
  from Cons.IH [OF Cons.prems, of g1] obtain rows g2 where
    "day_loop pid dev bl ps days g1 = Inr (rows, g2)" by blast
  with r a show ?case by simp
qed

lemma day_loop_rows:
  "day_loop pid dev bl ps days g = Inr (rows, g') \<Longrightarrow>
   length rows = length days \<and>
   (\<forall>k<length days.
      generate_day pid dev bl ps (int (fst (days ! k))) (snd (days ! k)) (g\<lparr>pos := pos g + 9 * k\<rparr>)
        = Inr (rows ! k, g\<lparr>pos := pos g + 9 * k + 9\<rparr>))"
proof (induction days arbitrary: g rows)
  case Nil
  then show ?case by simp
next
  case (Cons a days)
  obtain i d where a: "a = (i, d)" by (cases a)
  from Cons.prems a obtain r g1 rest where
    r: "generate_day pid dev bl ps (int i) d g = Inr (r, g1)" and
    rest: "day_loop pid dev bl ps days g1 = Inr (rest, g')" and
    rows: "rows = r # rest"
    by (auto split: sum.splits)
  have g1: "g1 = g\<lparr>pos := pos g + 9\<rparr>" using r by (rule generate_day_state)
  note IH = Cons.IH [OF rest]
  have len: "length rows = length (a # days)" using IH rows by simp
  have "generate_day pid dev bl ps (int (fst ((a # days) ! k))) (snd ((a # days) ! k))
          (g\<lparr>pos := pos g + 9 * k\<rparr>) = Inr (rows ! k, g\<lparr>pos := pos g + 9 * k + 9\<rparr>)"
    if k: "k < length (a # days)" for k
  proof (cases k)
    case 0
    then show ?thesis using r a rows g1 by simp
  next
    case (Suc j)
    with k have "j < length days" by simp
    with IH have "generate_day pid dev bl ps (int (fst (days ! j))) (snd (days ! j))
        (g1\<lparr>pos := pos g1 + 9 * j\<rparr>) = Inr (rest ! j, g1\<lparr>pos := pos g1 + 9 * j + 9\<rparr>)"
      by blast
    then show ?thesis using Suc rows g1 by (simp add: add.commute add.left_commute)
  qed
  with len show ?case by blast
qed

lemma randint_range:
  "np_random_randint low high g = Inr (v, g') \<Longrightarrow> low \<le> v \<and> v < high"
proof -
  assume a: "np_random_randint low high g = Inr (v, g')"
  then have lt: "low < high" by (auto simp: np_random_randint_def split: if_splits)
  from a lt have v: "v = low + int (bits (source g (pos g))) mod (high - low)"
    by (simp add: np_random_randint_def)
  from lt have "0 \<le> int (bits (source g (pos g))) mod (high - low)"
    and "int (bits (source g (pos g))) mod (high - low) < high - low"
    by simp_all
  with v show ?thesis by linarith
qed

lemma randint_total:
  "low < high \<Longrightarrow> \<exists>v g'. np_random_randint low high g = Inr (v, g')"
  by (simp add: np_random_randint_def)

lemma flare_loop_episodes:
  "flare_loop k n g = Inr (ps, g') \<Longrightarrow> (s, e) \<in> set ps \<Longrightarrow>
   \<exists>d. 7 \<le> d \<and> d \<le> 21 \<and> e = s + d \<and> 30 \<le> s \<and> s < n - d - 30"
proof (induction k arbitrary: g ps)
  case 0
  then show ?case by simp
next
  case (Suc k)
  from Suc.prems(1) obtain d g1 st g2 rest where
    d: "np_random_randint 7 22 g = Inr (d, g1)" and
    st: "np_random_randint 30 (n - d - 30) g1 = Inr (st, g2)" and
    rest: "flare_loop k n g2 = Inr (rest, g')" and
    ps: "ps = (st, st + d) # rest"
    by (auto split: sum.splits)
  show ?case
  proof (cases "(s, e) = (st, st + d)")
    case True
    with randint_range [OF d] randint_range [OF st] show ?thesis by auto
  next
    case False
    with Suc.prems(2) ps have "(s, e) \<in> set rest" by auto
    with Suc.IH [OF rest] show ?thesis by blast
  qed
qed

lemma flare_loop_total:
  "82 \<le> n \<Longrightarrow> \<exists>ps g'. flare_loop k n g = Inr (ps, g')"
proof (induction k arbitrary: g)
  case 0
  show ?case by simp
next
  case (Suc k)
  obtain d g1 where d: "np_random_randint 7 22 g = Inr (d, g1)"
    using randint_total [of 7 22 g] by auto
  from randint_range [OF d] Suc.prems have "30 < n - d - 30" by simp
  then obtain st g2 where st: "np_random_randint 30 (n - d - 30) g1 = Inr (st, g2)"
    using randint_total [of 30 "n - d - 30" g1] by auto
  from Suc.IH [OF Suc.prems, of g2] obtain rest g3 where
    "flare_loop k n g2 = Inr (rest, g3)" by blast
  with d st show ?case by simp
qed

lemma schedule_flares_episodes:
  "schedule_flares n g = Inr (ps, g') \<Longrightarrow> (s, e) \<in> set ps \<Longrightarrow>
   \<exists>d. 7 \<le> d \<and> d \<le> 21 \<and> e = s + d \<and> 30 \<le> s \<and> s < n - d - 30"
  by (auto simp: schedule_flares_def np_random_random_def Let_def
      split: if_splits sum.splits dest: flare_loop_episodes)

lemma schedule_flares_total:
  "82 \<le> n \<Longrightarrow> \<exists>ps g'. schedule_flares n g = Inr (ps, g')"
  using flare_loop_total [of n] randint_total [of 1 4 "advance g"]
  by (auto simp: schedule_flares_def np_random_random_def Let_def split: sum.splits)

lemma timeline_rows:
  assumes "generate_patient_timeline pid n dev g = Inr (rows, ps, g')"
  shows "\<exists>g2. schedule_flares n (snd (draw_baseline g)) = Inr (ps, g2) \<and>
           length rows = nat n \<and>
           (\<forall>k<nat n.
              generate_day pid dev (fst (draw_baseline g)) ps (int k) (start_date + int k)
                (g2\<lparr>pos := pos g2 + 9 * k\<rparr>) = Inr (rows ! k, g2\<lparr>pos := pos g2 + 9 * k + 9\<rparr>))"
proof -
  from assms obtain ds g2 where
    ds: "make_dates n = Inr ds" and
    sch: "schedule_flares n (snd (draw_baseline g)) = Inr (ps, g2)" and
    loop: "day_loop pid dev (fst (draw_baseline g)) ps (enumerate 0 ds) g2 = Inr (rows, g')"
    by (auto simp: generate_patient_timeline_def split_beta Let_def split: sum.splits)
  have dsv: "ds = map (\<lambda>i. start_date + int i) [0..<nat n]" using ds by (rule make_dates_Inr)
  then have len: "length ds = nat n" by simp
  have nth: "enumerate 0 ds ! k = (k, start_date + int k)" if "k < nat n" for k
    using that dsv by (simp add: nth_enumerate_eq)
  from day_loop_rows [OF loop] len nth sch show ?thesis by auto
qed

lemma timeline_total:
  assumes "82 \<le> n" "n \<le> 2913174" "device_lookup dev = Inr dc"
  shows "\<exists>rows ps g'. generate_patient_timeline pid n dev g = Inr (rows, ps, g')"
proof -
  from assms(2) obtain ds where ds: "make_dates n = Inr ds" using make_dates_total by blast
  from assms(1) obtain ps g2 where
    sch: "schedule_flares n (snd (draw_baseline g)) = Inr (ps, g2)"
    using schedule_flares_total by blast
  from assms(3) obtain rows g3 where
    "day_loop pid dev (fst (draw_baseline g)) ps (enumerate 0 ds) g2 = Inr (rows, g3)"
    using day_loop_total by blast
  with ds sch show ?thesis
    by (simp add: generate_patient_timeline_def split_beta Let_def)
qed


lemma timeline_row:
  assumes run: "generate_patient_timeline pid n dev g = Inr (rows, ps, g')" and k: "k < length rows"
  shows "\<exists>dc g2. device_lookup dev = Inr dc \<and>
           schedule_flares n (snd (draw_baseline g)) = Inr (ps, g2) \<and>
           rows ! k =
             store_row pid (start_date + int k) dev
               (fst (missingness dc
                  (fst (daily_noise (pre_noise (fst (draw_baseline g)) ps (int k))
                     (g2\<lparr>pos := pos g2 + 9 * k\<rparr>)))
                  (g2\<lparr>pos := pos g2 + 9 * k + 8\<rparr>)))
               (is_flare_day (int k) ps) (days_to_next_flare (int k) ps)"
proof -
  from timeline_rows [OF run] k obtain g2 where
    sch: "schedule_flares n (snd (draw_baseline g)) = Inr (ps, g2)" and
    day: "generate_day pid dev (fst (draw_baseline g)) ps (int k) (start_date + int k)
            (g2\<lparr>pos := pos g2 + 9 * k\<rparr>) = Inr (rows ! k, g2\<lparr>pos := pos g2 + 9 * k + 9\<rparr>)"
    by auto
  from generate_day_known [OF day] obtain dc where dc: "device_lookup dev = Inr dc" by blast
  from day show ?thesis using sch dc by (simp add: generate_day_Inr [OF dc])
qed

lemma store_row_labels:
  "in_flare (store_row pid d dev w f t) = (if f then 1 else 0)"
  "days_to_flare (store_row pid d dev w f t) = t"
  "date (store_row pid d dev w f t) = d"
  "patient_id (store_row pid d dev w f t) = pid"
  "device (store_row pid d dev w f t) = dev"
  by (simp_all add: store_row_def)

lemma py_max_floor: "py_max (Fin a) w = Fin v \<Longrightarrow> a \<le> v"
  by (cases w) (auto simp: py_max_def split: if_splits)

lemma py_max_nan: "py_max (Fin a) NaN = Fin a"
  by (simp add: py_max_def)

lemma np_clip_range: "np_clip w lo hi = Fin v \<Longrightarrow> lo \<le> hi \<Longrightarrow> lo \<le> v \<and> v \<le> hi"
  by (cases w) auto

lemma store_row_clamps:
  "rhr (store_row pid d dev w f t) = Fin v \<Longrightarrow> 40 \<le> v"
  "hr (store_row pid d dev w f t) = Fin v \<Longrightarrow> 50 \<le> v"
  "hrv_sdnn (store_row pid d dev w f t) = Fin v \<Longrightarrow> 5 \<le> v"
  "hrv_rmssd (store_row pid d dev w f t) = Fin v \<Longrightarrow> 5 \<le> v"
  "steps (store_row pid d dev w f t) = Fin v \<Longrightarrow> 0 \<le> v"
  "spo2 (store_row pid d dev w f t) = Fin v \<Longrightarrow> 90 \<le> v \<and> v \<le> 100"
  "sleep_hours (store_row pid d dev w f t) = Fin v \<Longrightarrow> 3 \<le> v \<and> v \<le> 12"
  "sleep_efficiency (store_row pid d dev w f t) = Fin v \<Longrightarrow> 40 \<le> v \<and> v \<le> 100"
  by (auto simp: store_row_def split: if_splits dest: py_max_floor np_clip_range)

lemma missingness_no_sensor:
  "\<not> has_spo2 dc \<Longrightarrow> spo2 (fst (missingness dc v g)) = NaN"
  by (simp add: missingness_def np_random_random_def Let_def)

lemma missingness_missed:
  "hr_hours_per_day dc / 24 < unif (source g (pos g)) \<Longrightarrow> fst (missingness dc v g) = all_nan"
  by (simp add: missingness_def np_random_random_def Let_def all_nan_def)

lemma missingness_measured:
  "\<not> hr_hours_per_day dc / 24 < unif (source g (pos g)) \<Longrightarrow> has_spo2 dc \<Longrightarrow>
   fst (missingness dc v g) = as_floats v"
  by (simp add: missingness_def np_random_random_def Let_def)

lemma store_row_spo2_nan: "spo2 w = NaN \<Longrightarrow> spo2 (store_row pid d dev w f t) = NaN"
  by (simp add: store_row_def)

lemma store_row_all_nan:
  "store_row pid d dev all_nan f t =
     \<lparr>rhr = Fin 40, hr = Fin 50, hrv_sdnn = Fin 5, hrv_rmssd = Fin 5, steps = Fin 0,
      spo2 = NaN, sleep_hours = NaN, sleep_efficiency = NaN,
      patient_id = pid, date = d, device = dev,
      in_flare = (if f then 1 else 0), days_to_flare = t\<rparr>"
  by (simp add: store_row_def all_nan_def py_max_def)

lemma fitbit_lookup:
  "device_lookup ''Fitbit'' =
     Inr \<lparr>hr_hours_per_day = 19, hrv_hours_per_day = 764 / 100,
          spo2_hours_per_day = 0, has_spo2 = False\<rparr>"
  by (simp add: device_lookup_def DEVICE_CHARACTERISTICS_def)

lemma scenario_schedule:
  "schedule_flares 90 (snd (draw_baseline scenario_rng)) =
     Inr ([(40, 50)], scenario_rng\<lparr>pos := 12\<rparr>)"
  by (simp add: draw_baseline_state schedule_flares_def np_random_random_def
      np_random_randint_def advance_def scenario_rng_def scenario_source_def Let_def)

lemma scenario_short_schedule:
  "schedule_flares 60 (snd (draw_baseline scenario_rng)) = Inl ValueError"
  by (simp add: draw_baseline_state schedule_flares_def np_random_random_def
      np_random_randint_def advance_def scenario_rng_def scenario_source_def Let_def)

lemma scenario_run_ok: "\<exists>rows g'. scenario_run = Inr (rows, [(40, 50)], g')"
proof -
  obtain rows ps g' where
    run: "generate_patient_timeline ''P001'' 90 ''Fitbit'' scenario_rng = Inr (rows, ps, g')"
    using timeline_total [OF _ _ fitbit_lookup, of 90 "''P001''" scenario_rng] by auto
  from timeline_rows [OF run] scenario_schedule have "ps = [(40, 50)]" by auto
  with run show ?thesis by (simp add: scenario_run_def)
qed


lemma days_to_next_flare_cases:
  "days_to_next_flare d ps = - 1 \<or>
   (\<exists>(s, e)\<in>set ps. d < s \<and> days_to_next_flare d ps = s - d)"
proof (induction ps)
  case Nil
  show ?case by simp
next
  case (Cons a ps)
  obtain s e where a: "a = (s, e)" by (cases a)
  show ?case
  proof (cases "d < s")
    case True
    with a show ?thesis by auto
  next
    case False
    with a have "days_to_next_flare d (a # ps) = days_to_next_flare d ps" by simp
    with Cons.IH show ?thesis by auto
  qed
qed

lemma days_to_next_flare_find:
  "days_to_next_flare d ps =
     (case find (\<lambda>(s, e). d < s) ps of Some (s, e) \<Rightarrow> s - d | None \<Rightarrow> - 1)"
  by (induction ps) auto

lemma days_to_next_flare_none:
  "(\<forall>(s, e)\<in>set ps. s \<le> d) \<Longrightarrow> days_to_next_flare d ps = - 1"
  by (induction ps) auto

lemma days_to_next_flare_stays_none:
  "days_to_next_flare d ps = - 1 \<Longrightarrow> d \<le> d' \<Longrightarrow> days_to_next_flare d' ps = - 1"
  by (induction ps) (auto split: if_splits)

lemma is_flare_day_iff:
  "is_flare_day d ps \<longleftrightarrow> (\<exists>(s, e)\<in>set ps. s \<le> d \<and> d < e)"
  by (auto simp: is_flare_day_def list_ex_iff)

lemma days_to_next_flare_step:
  "(\<forall>(s, e)\<in>set ps. s < e) \<Longrightarrow> \<not> is_flare_day (d + 1) ps \<Longrightarrow>
   days_to_next_flare d ps \<noteq> - 1 \<Longrightarrow>
   days_to_next_flare (d + 1) ps = days_to_next_flare d ps - 1"
proof (induction ps)
  case Nil
  then show ?case by simp
next
  case (Cons a ps)
  obtain s e where a: "a = (s, e)" by (cases a)
  show ?case
  proof (cases "d < s")
    case True
    from Cons.prems(1) a have "s < e" by simp
    moreover from Cons.prems(2) a have "\<not> (s \<le> d + 1 \<and> d + 1 < e)"
      by (simp add: is_flare_day_iff)
    ultimately have "d + 1 < s" using True by linarith
    with True a show ?thesis by simp
  next
    case False
    from Cons.prems(2) have nf: "\<not> is_flare_day (d + 1) ps" by (simp add: is_flare_day_iff)
    from Cons.prems(3) False a have ne: "days_to_next_flare d ps \<noteq> - 1" by simp
    from Cons.prems(1) have wf: "\<forall>(s, e)\<in>set ps. s < e" by simp
    have "days_to_next_flare (d + 1) ps = days_to_next_flare d ps - 1"
      by (rule Cons.IH [OF wf nf ne])
    with False a show ?thesis by simp
  qed
qed

lemma days_to_next_flare_run:
  assumes wf: "\<forall>(s, e)\<in>set ps. s < e"
    and ne: "days_to_next_flare d ps \<noteq> - 1"
  shows "(\<forall>j. 1 \<le> j \<and> j \<le> m \<longrightarrow> \<not> is_flare_day (d + int j) ps) \<Longrightarrow>
         days_to_next_flare (d + int m) ps = days_to_next_flare d ps - int m \<and>
         days_to_next_flare (d + int m) ps \<noteq> - 1"
proof (induction m)
  case 0
  with ne show ?case by simp
next
  case (Suc m)
  from Suc.prems have "\<forall>j. 1 \<le> j \<and> j \<le> m \<longrightarrow> \<not> is_flare_day (d + int j) ps" by simp
  with Suc.IH have IH: "days_to_next_flare (d + int m) ps = days_to_next_flare d ps - int m"
    and ne': "days_to_next_flare (d + int m) ps \<noteq> - 1" by simp_all
  have day: "d + int (Suc m) = d + int m + 1" by simp
  have "1 \<le> Suc m \<and> Suc m \<le> Suc m" by simp
  with Suc.prems have "\<not> is_flare_day (d + int (Suc m)) ps" by blast
  then have nf: "\<not> is_flare_day (d + int m + 1) ps" unfolding day .
  have "days_to_next_flare (d + int m + 1) ps = days_to_next_flare (d + int m) ps - 1"
    by (rule days_to_next_flare_step [OF wf nf ne'])
  with IH have eq: "days_to_next_flare (d + int (Suc m)) ps = days_to_next_flare d ps - int (Suc m)"
    unfolding day by simp
  from days_to_next_flare_cases [of "d + int (Suc m)" ps]
  have "days_to_next_flare (d + int (Suc m)) ps = - 1 \<or> 1 \<le> days_to_next_flare (d + int (Suc m)) ps"
    by auto
  moreover from days_to_next_flare_cases [of "d + int m" ps] ne'
  have "1 \<le> days_to_next_flare (d + int m) ps" by auto
  ultimately have "days_to_next_flare (d + int (Suc m)) ps \<noteq> - 1"
    using eq IH by linarith
  with eq show ?case by simp
qed


lemma timeline_labels:
  assumes run: "generate_patient_timeline pid n dev g = Inr (rows, ps, g')" and k: "k < length rows"
  shows "in_flare (rows ! k) = (if is_flare_day (int k) ps then 1 else 0)"
    and "days_to_flare (rows ! k) = days_to_next_flare (int k) ps"
    and "date (rows ! k) = start_date + int k"
    and "patient_id (rows ! k) = pid"
    and "device (rows ! k) = dev"
  using timeline_row [OF run k] by (auto simp: store_row_labels)

lemma timeline_length:
  "generate_patient_timeline pid n dev g = Inr (rows, ps, g') \<Longrightarrow> length rows = nat n"
  using timeline_rows by blast

lemma timeline_periods:
  assumes run: "generate_patient_timeline pid n dev g = Inr (rows, ps, g')"
    and se: "(s, e) \<in> set ps"
  shows "\<exists>d. 7 \<le> d \<and> d \<le> 21 \<and> e = s + d \<and> 30 \<le> s \<and> s < n - d - 30"
proof -
  from timeline_rows [OF run] obtain g2 where
    "schedule_flares n (snd (draw_baseline g)) = Inr (ps, g2)" by blast
  then show ?thesis using se by (rule schedule_flares_episodes)
qed

lemma timeline_periods_wf:
  assumes run: "generate_patient_timeline pid n dev g = Inr (rows, ps, g')"
  shows "\<forall>(s, e)\<in>set ps. s < e"
  using timeline_periods [OF run] by fastforce

lemma scenario_rows:
  obtains rows g' where
    "generate_patient_timeline ''P001'' 90 ''Fitbit'' scenario_rng = Inr (rows, [(40, 50)], g')"
    "rows_of scenario_run = rows" "periods_of scenario_run = [(40, 50)]" "length rows = 90"
proof -
  from scenario_run_ok obtain rows g' where r: "scenario_run = Inr (rows, [(40, 50)], g')"
    by blast
  then have run: "generate_patient_timeline ''P001'' 90 ''Fitbit'' scenario_rng =
      Inr (rows, [(40, 50)], g')" by (simp add: scenario_run_def)
  from timeline_length [OF run] have len: "length rows = 90" by simp
  have a: "rows_of scenario_run = rows" unfolding rows_of_def r by simp
  have b: "periods_of scenario_run = [(40, 50)]" unfolding periods_of_def r by simp
  show ?thesis by (rule that [OF run a b len])
qed

lemma scenario_row:
  assumes run: "generate_patient_timeline ''P001'' 90 ''Fitbit'' scenario_rng = Inr (rows, [(40, 50)], g')"
    and k: "k < length rows"
  shows "rows ! k =
     store_row ''P001'' (start_date + int k) ''Fitbit''
       (fst (missingness
          \<lparr>hr_hours_per_day = 19, hrv_hours_per_day = 764 / 100,
           spo2_hours_per_day = 0, has_spo2 = False\<rparr>
          (fst (daily_noise (pre_noise (fst (draw_baseline scenario_rng)) [(40, 50)] (int k))
             (scenario_rng\<lparr>pos := 12 + 9 * k\<rparr>)))
          (scenario_rng\<lparr>pos := 12 + 9 * k + 8\<rparr>)))
       (is_flare_day (int k) [(40, 50)]) (days_to_next_flare (int k) [(40, 50)])"
  using timeline_row [OF run k] by (simp add: fitbit_lookup scenario_schedule)

lemma scenario_baseline:
  "fst (draw_baseline scenario_rng) =
     \<lparr>rhr = 61, hr = 145 / 2, hrv_sdnn = 40, hrv_rmssd = 75 / 2, steps = 9250,
      spo2 = 971 / 10, sleep_hours = 139 / 20, sleep_efficiency = 85\<rparr>"
  by (simp add: draw_baseline_def np_random_normal_def advance_def Let_def BASELINE_PARAMS_def
      scenario_rng_def scenario_source_def)

lemma scenario_day_1:
  assumes run: "generate_patient_timeline ''P001'' 90 ''Fitbit'' scenario_rng = Inr (rows, [(40, 50)], g')"
  shows "rhr (rows ! 1) = Fin (6089 / 98)" "sleep_hours (rows ! 1) = Fin (6611 / 980)"
    "spo2 (rows ! 1) = NaN"
proof -
  from timeline_length [OF run] have k: "1 < length rows" by simp
  have row: "rows ! 1 = store_row ''P001'' (start_date + 1) ''Fitbit''
       (fst (missingness
          \<lparr>hr_hours_per_day = 19, hrv_hours_per_day = 764 / 100,
           spo2_hours_per_day = 0, has_spo2 = False\<rparr>
          (fst (daily_noise (pre_noise (fst (draw_baseline scenario_rng)) [(40, 50)] 1)
             (scenario_rng\<lparr>pos := 21\<rparr>)))
          (scenario_rng\<lparr>pos := 29\<rparr>)))
       (is_flare_day 1 [(40, 50)]) (days_to_next_flare 1 [(40, 50)])"
    using scenario_row [OF run k] by simp
  show "rhr (rows ! 1) = Fin (6089 / 98)"
    unfolding row scenario_baseline
    by (simp add: store_row_def missingness_def np_random_random_def daily_noise_def
        np_random_normal_def advance_def Let_def pre_noise_def flare_effects_def
        flare_progress_def is_flare_day_def FLARE_CHANGES_def as_floats_def all_nan_def
        py_max_def scenario_rng_def scenario_source_def)
  show "sleep_hours (rows ! 1) = Fin (6611 / 980)"
    unfolding row scenario_baseline
    by (simp add: store_row_def missingness_def np_random_random_def daily_noise_def
        np_random_normal_def advance_def Let_def pre_noise_def flare_effects_def
        flare_progress_def is_flare_day_def FLARE_CHANGES_def as_floats_def all_nan_def
        py_max_def scenario_rng_def scenario_source_def)
  show "spo2 (rows ! 1) = NaN"
    unfolding row by (simp add: store_row_spo2_nan missingness_no_sensor)
qed

lemma missed_day_row:
  assumes run: "generate_patient_timeline pid n dev g = Inr (rows, ps, g')"
    and k: "k < length rows"
    and dc: "device_lookup dev = Inr dc"
    and sch: "schedule_flares n (snd (draw_baseline g)) = Inr (ps, g2)"
    and miss: "hr_hours_per_day dc / 24 < unif (source g2 (pos g2 + 9 * k + 8))"
  shows "rows ! k =
     \<lparr>rhr = Fin 40, hr = Fin 50, hrv_sdnn = Fin 5, hrv_rmssd = Fin 5, steps = Fin 0,
      spo2 = NaN, sleep_hours = NaN, sleep_efficiency = NaN,
      patient_id = pid, date = start_date + int k, device = dev,
      in_flare = (if is_flare_day (int k) ps then 1 else 0),
      days_to_flare = days_to_next_flare (int k) ps\<rparr>"
proof -
  from timeline_row [OF run k] dc sch obtain v where
    row: "rows ! k = store_row pid (start_date + int k) dev
            (fst (missingness dc v (g2\<lparr>pos := pos g2 + 9 * k + 8\<rparr>)))
            (is_flare_day (int k) ps) (days_to_next_flare (int k) ps)"
    by auto
  have "fst (missingness dc v (g2\<lparr>pos := pos g2 + 9 * k + 8\<rparr>)) = all_nan"
    using miss by (simp add: missingness_missed)
  with row show ?thesis by (simp add: store_row_all_nan)
qed

lemma pre_noise_explicit:
  "let d = days_to_next_flare day_idx flare_periods;
       progress =
         (if 0 < d \<and> d \<le> 49 then 1 - real_of_int d / 49
          else if (\<exists>(start, stop)\<in>set flare_periods. start \<le> day_idx \<and> day_idx < stop) then 1
          else 0)
   in 0 \<le> progress \<and> progress \<le> 1 \<and>
      pre_noise baseline flare_periods day_idx =
        \<lparr>rhr = rhr baseline + 8 * progress,
         hr = hr baseline + 10 * progress,
         hrv_sdnn = hrv_sdnn baseline * (1 + (- (30 / 100)) * progress),
         hrv_rmssd = hrv_rmssd baseline * (1 + (- (25 / 100)) * progress),
         steps = steps baseline * (1 + (- (40 / 100)) * progress),
         spo2 = spo2 baseline + (- (2 / 10)) * progress,
         sleep_hours = sleep_hours baseline + (- 1) * progress,
         sleep_efficiency = sleep_efficiency baseline + (- 15) * progress\<rparr>"
proof -
  define d where "d = days_to_next_flare day_idx flare_periods"
  have range: "0 \<le> 1 - real_of_int d / 49 \<and> 1 - real_of_int d / 49 \<le> 1"
    if "0 < d \<and> d \<le> 49"
  proof -
    from that have "0 \<le> real_of_int d" and "real_of_int d \<le> 49" by simp_all
    then show ?thesis by simp
  qed
  show ?thesis
    unfolding Let_def d_def [symmetric]
    using range
    by (simp add: pre_noise_def flare_effects_def flare_progress_def FLARE_CHANGES_def
        is_flare_day_iff d_def [symmetric])
qed

lemma daily_noise_values:
  "fst (daily_noise v g) =
     \<lparr>rhr = rhr v + 2 * gauss (source g (pos g)),
      hr = hr v + 3 * gauss (source g (pos g + 1)),
      hrv_sdnn = hrv_sdnn v + 3 * gauss (source g (pos g + 2)),
      hrv_rmssd = hrv_rmssd v + 25 / 10 * gauss (source g (pos g + 3)),
      steps = steps v + 1000 * gauss (source g (pos g + 4)),
      spo2 = spo2 v + 3 / 10 * gauss (source g (pos g + 5)),
      sleep_hours = sleep_hours v + 1 / 2 * gauss (source g (pos g + 6)),
      sleep_efficiency = sleep_efficiency v + 3 * gauss (source g (pos g + 7))\<rparr>"
  by (simp add: daily_noise_def np_random_normal_def advance_def Let_def eval_nat_numeral)

lemma missingness_measured_values:
  "\<not> hr_hours_per_day dc / 24 < unif (source g (pos g)) \<Longrightarrow>
   fst (missingness dc v g) =
     (if has_spo2 dc then as_floats v else (as_floats v)\<lparr>spo2 := NaN\<rparr>)"
  by (simp add: missingness_def np_random_random_def Let_def)

lemma store_row_measured:
  "rhr (store_row pid d dev (if s then as_floats v else (as_floats v)\<lparr>spo2 := NaN\<rparr>) f t) =
     py_max (Fin 40) (Fin (rhr v))"
  "hr (store_row pid d dev (if s then as_floats v else (as_floats v)\<lparr>spo2 := NaN\<rparr>) f t) =
     py_max (Fin 50) (Fin (hr v))"
  "hrv_sdnn (store_row pid d dev (if s then as_floats v else (as_floats v)\<lparr>spo2 := NaN\<rparr>) f t) =
     py_max (Fin 5) (Fin (hrv_sdnn v))"
  "hrv_rmssd (store_row pid d dev (if s then as_floats v else (as_floats v)\<lparr>spo2 := NaN\<rparr>) f t) =
     py_max (Fin 5) (Fin (hrv_rmssd v))"
  "steps (store_row pid d dev (if s then as_floats v else (as_floats v)\<lparr>spo2 := NaN\<rparr>) f t) =
     py_max (Fin 0) (Fin (steps v))"
  "spo2 (store_row pid d dev (if s then as_floats v else (as_floats v)\<lparr>spo2 := NaN\<rparr>) f t) =
     (if s then np_clip (Fin (spo2 v)) 90 100 else NaN)"
  "sleep_hours (store_row pid d dev (if s then as_floats v else (as_floats v)\<lparr>spo2 := NaN\<rparr>) f t) =
     np_clip (Fin (sleep_hours v)) 3 12"
  "sleep_efficiency (store_row pid d dev (if s then as_floats v else (as_floats v)\<lparr>spo2 := NaN\<rparr>) f t) =
     np_clip (Fin (sleep_efficiency v)) 40 100"
  by (simp_all add: store_row_def as_floats_def)

section \<open>The claims of the specification\<close>

text \<open>
  Claim C5. For every day index \<open>k\<close> of a generated timeline, \<open>days_to_flare\<close> is
  \<open>start - k\<close> for the first episode, in the order in which the episodes were generated,
  whose start lies after \<open>k\<close>, and \<open>-1\<close> when no episode starts after \<open>k\<close> (the day is
  inside or past every episode).
\<close>

theorem C5_days_to_flare_first_future_start:
  assumes "generate_patient_timeline pid num_days dev g = Inr (rows, flare_periods, g')"
    and "k < length rows"
  shows "days_to_flare (rows ! k) =
           (case find (\<lambda>(s, e). int k < s) flare_periods of
              Some (s, e) \<Rightarrow> s - int k
            | None \<Rightarrow> - 1) \<and>
         ((\<forall>(s, e)\<in>set flare_periods. s \<le> int k) \<longrightarrow> days_to_flare (rows ! k) = - 1)"
proof -
  have eq: "days_to_flare (rows ! k) = days_to_next_flare (int k) flare_periods"
    using assms by (rule timeline_labels)
  show ?thesis unfolding eq
    using days_to_next_flare_find [of "int k" flare_periods]
      days_to_next_flare_none [of flare_periods "int k"] by simp
qed

theorem C5_days_to_flare_first_future_start_witness:
  "12 < length (rows_of scenario_run) \<and>
   find (\<lambda>(s, e). int 12 < s) (periods_of scenario_run) = Some (40, 50) \<and>
   days_to_flare (rows_of scenario_run ! 12) = 28"
proof -
  obtain rows g' where
    run: "generate_patient_timeline ''P001'' 90 ''Fitbit'' scenario_rng = Inr (rows, [(40, 50)], g')"
    and rows: "rows_of scenario_run = rows" and ps: "periods_of scenario_run = [(40, 50)]"
    and len: "length rows = 90"
    by (rule scenario_rows)
  have k: "12 < length rows" using len by simp
  from C5_days_to_flare_first_future_start [OF run k] show ?thesis using rows ps k by simp
qed

text \<open>
  Claim C10. In every generated record \<open>days_to_flare\<close> is never \<open>0\<close>: it is \<open>-1\<close> or at
  least \<open>1\<close>, and a value other than \<open>-1\<close> is the distance to an episode that starts
  strictly after the day. This holds for every day index, so in particular on the start
  day of an episode the counter comes from a strictly later episode or is \<open>-1\<close>.
\<close>

theorem C10_days_to_flare_never_zero:
  assumes "generate_patient_timeline pid num_days dev g = Inr (rows, flare_periods, g')"
    and "k < length rows"
  shows "days_to_flare (rows ! k) \<noteq> 0 \<and>
         (days_to_flare (rows ! k) = - 1 \<or> 1 \<le> days_to_flare (rows ! k)) \<and>
         (days_to_flare (rows ! k) = - 1 \<or>
          (\<exists>(s, e)\<in>set flare_periods. int k < s \<and> days_to_flare (rows ! k) = s - int k))"
proof -
  have eq: "days_to_flare (rows ! k) = days_to_next_flare (int k) flare_periods"
    using assms by (rule timeline_labels)
  from days_to_next_flare_cases [of "int k" flare_periods] show ?thesis
    unfolding eq by auto
qed

theorem C10_days_to_flare_never_zero_witness:
  "40 < length (rows_of scenario_run) \<and>
   (40, 50) \<in> set (periods_of scenario_run) \<and>
   days_to_flare (rows_of scenario_run ! 40) \<noteq> 0 \<and>
   (days_to_flare (rows_of scenario_run ! 40) = - 1 \<or>
    1 \<le> days_to_flare (rows_of scenario_run ! 40))"
proof -
  obtain rows g' where
    run: "generate_patient_timeline ''P001'' 90 ''Fitbit'' scenario_rng = Inr (rows, [(40, 50)], g')"
    and rows: "rows_of scenario_run = rows" and ps: "periods_of scenario_run = [(40, 50)]"
    and len: "length rows = 90"
    by (rule scenario_rows)
  have k: "40 < length rows" using len by simp
  from C10_days_to_flare_never_zero [OF run k] show ?thesis using rows ps k by simp
qed

text \<open>
  Claim C3. In every generated record, every physiological channel value that is present
  (not not-a-number) lies within its clamp range: \<open>rhr \<ge> 40\<close>, \<open>hr \<ge> 50\<close>,
  \<open>hrv_sdnn \<ge> 5\<close>, \<open>hrv_rmssd \<ge> 5\<close>, \<open>steps \<ge> 0\<close>, \<open>spo2\<close> in \<open>[90, 100]\<close>,
  \<open>sleep_hours\<close> in \<open>[3, 12]\<close>, \<open>sleep_efficiency\<close> in \<open>[40, 100]\<close>.
\<close>

theorem C3_present_values_within_clamps:
  assumes "generate_patient_timeline pid num_days dev g = Inr (rows, flare_periods, g')"
    and "k < length rows"
  shows "(\<forall>v. rhr (rows ! k) = Fin v \<longrightarrow> 40 \<le> v) \<and>
         (\<forall>v. hr (rows ! k) = Fin v \<longrightarrow> 50 \<le> v) \<and>
         (\<forall>v. hrv_sdnn (rows ! k) = Fin v \<longrightarrow> 5 \<le> v) \<and>
         (\<forall>v. hrv_rmssd (rows ! k) = Fin v \<longrightarrow> 5 \<le> v) \<and>
         (\<forall>v. steps (rows ! k) = Fin v \<longrightarrow> 0 \<le> v) \<and>
         (\<forall>v. spo2 (rows ! k) = Fin v \<longrightarrow> 90 \<le> v \<and> v \<le> 100) \<and>
         (\<forall>v. sleep_hours (rows ! k) = Fin v \<longrightarrow> 3 \<le> v \<and> v \<le> 12) \<and>
         (\<forall>v. sleep_efficiency (rows ! k) = Fin v \<longrightarrow> 40 \<le> v \<and> v \<le> 100)"
proof -
  from timeline_row [OF assms] obtain w f t where
    row: "rows ! k = store_row pid (start_date + int k) dev w f t" by blast
  show ?thesis unfolding row using store_row_clamps [of pid "start_date + int k" dev w f t]
    by blast
qed

theorem C3_present_values_within_clamps_witness:
  "1 < length (rows_of scenario_run) \<and>
   rhr (rows_of scenario_run ! 1) = Fin (6089 / 98) \<and> (40 :: real) \<le> 6089 / 98 \<and>
   sleep_hours (rows_of scenario_run ! 1) = Fin (6611 / 980) \<and>
   (3 :: real) \<le> 6611 / 980 \<and> (6611 :: real) / 980 \<le> 12"
proof -
  obtain rows g' where
    run: "generate_patient_timeline ''P001'' 90 ''Fitbit'' scenario_rng = Inr (rows, [(40, 50)], g')"
    and rows: "rows_of scenario_run = rows" and len: "length rows = 90"
    by (rule scenario_rows)
  have k: "1 < length rows" using len by simp
  from C3_present_values_within_clamps [OF run k] scenario_day_1 [OF run]
  show ?thesis using rows k by simp
qed

text \<open>
  Claim C8. For a device whose \<open>has_spo2\<close> flag is false, and these are exactly Fitbit and
  Oura Ring, the \<open>spo2\<close> channel of every generated record is not-a-number, whatever the
  random stream (and so whatever the missingness draw) is.
\<close>

theorem C8_spo2_absent_without_sensor:
  assumes "generate_patient_timeline pid num_days dev g = Inr (rows, flare_periods, g')"
    and "k < length rows" and "device_lookup dev = Inr dc"
  shows "(\<not> has_spo2 dc \<longleftrightarrow> dev = ''Fitbit'' \<or> dev = ''Oura Ring'') \<and>
         (\<not> has_spo2 dc \<longrightarrow> spo2 (rows ! k) = NaN)"
proof -
  have "\<not> has_spo2 dc \<longleftrightarrow> dev = ''Fitbit'' \<or> dev = ''Oura Ring''"
    using assms(3)
    by (auto simp: device_lookup_def DEVICE_CHARACTERISTICS_def split: if_splits)
  moreover have "spo2 (rows ! k) = NaN" if "\<not> has_spo2 dc"
  proof -
    from timeline_row [OF assms(1,2)] assms(3) obtain v g2 f t where
      "rows ! k = store_row pid (start_date + int k) dev (fst (missingness dc v g2)) f t"
      by auto
    then show ?thesis using that by (simp add: store_row_spo2_nan missingness_no_sensor)
  qed
  ultimately show ?thesis by blast
qed

theorem C8_spo2_absent_without_sensor_witness:
  "1 < length (rows_of scenario_run) \<and>
   rhr (rows_of scenario_run ! 1) = Fin (6089 / 98) \<and>
   spo2 (rows_of scenario_run ! 1) = NaN"
proof -
  obtain rows g' where
    run: "generate_patient_timeline ''P001'' 90 ''Fitbit'' scenario_rng = Inr (rows, [(40, 50)], g')"
    and rows: "rows_of scenario_run = rows" and len: "length rows = 90"
    by (rule scenario_rows)
  have k: "1 < length rows" using len by simp
  from C8_spo2_absent_without_sensor [OF run k fitbit_lookup] scenario_day_1(1) [OF run]
  show ?thesis using rows k by simp
qed

text \<open>
  Claim C7. For every \<open>num_days\<close> in the range \<open>[90, 365]\<close> to which the caller clamps, and
  every episode duration \<open>d\<close> in \<open>[7, 21]\<close>, the window \<open>[30, num_days - d - 30)\<close> from
  which the start of a flare is drawn is not empty (\<open>num_days > d + 60\<close>), so the draw
  does not raise. Scheduling therefore always returns, and every scheduled episode
  \<open>(start, end)\<close> has \<open>start \<ge> 30\<close>, \<open>end = start + d\<close> for a duration \<open>d\<close> in
  \<open>[7, 21]\<close>, and \<open>end \<le> num_days - 30\<close>.
\<close>

theorem C7_flare_scheduling_never_fails:
  assumes "90 \<le> num_days" and "num_days \<le> 365"
  shows "(\<forall>d. 7 \<le> d \<and> d \<le> 21 \<longrightarrow>
            d + 60 < num_days \<and> 30 < num_days - d - 30 \<and>
            (\<exists>start g1. np_random_randint 30 (num_days - d - 30) g = Inr (start, g1) \<and>
               30 \<le> start \<and> start < num_days - d - 30)) \<and>
         (\<exists>flare_periods g'.
            schedule_flares num_days g = Inr (flare_periods, g') \<and>
            (\<forall>(start, stop)\<in>set flare_periods.
               \<exists>d. 7 \<le> d \<and> d \<le> 21 \<and> stop = start + d \<and>
                   30 \<le> start \<and> stop \<le> num_days - 30))"
proof -
  have window: "d + 60 < num_days \<and> 30 < num_days - d - 30 \<and>
      (\<exists>start g1. np_random_randint 30 (num_days - d - 30) g = Inr (start, g1) \<and>
         30 \<le> start \<and> start < num_days - d - 30)"
    if d: "7 \<le> d \<and> d \<le> 21" for d
  proof -
    from d assms(1) have lt: "30 < num_days - d - 30" by simp
    from randint_total [OF lt, of g] obtain start g1 where
      r: "np_random_randint 30 (num_days - d - 30) g = Inr (start, g1)" by blast
    from randint_range [OF r] r lt d assms(1) show ?thesis by auto
  qed
  from assms(1) have "82 \<le> num_days" by simp
  from schedule_flares_total [OF this, of g] obtain ps g' where
    sch: "schedule_flares num_days g = Inr (ps, g')" by blast
  have "\<exists>d. 7 \<le> d \<and> d \<le> 21 \<and> e = s + d \<and> 30 \<le> s \<and> e \<le> num_days - 30"
    if "(s, e) \<in> set ps" for s e
  proof -
    from schedule_flares_episodes [OF sch that] obtain d where
      "7 \<le> d" "d \<le> 21" "e = s + d" "30 \<le> s" "s < num_days - d - 30" by blast
    then show ?thesis by (intro exI [of _ d]) simp
  qed
  with sch have "\<exists>flare_periods g'.
      schedule_flares num_days g = Inr (flare_periods, g') \<and>
      (\<forall>(start, stop)\<in>set flare_periods.
         \<exists>d. 7 \<le> d \<and> d \<le> 21 \<and> stop = start + d \<and> 30 \<le> start \<and> stop \<le> num_days - 30)"
    by blast
  with window show ?thesis by blast
qed

theorem C7_flare_scheduling_never_fails_witness:
  "(90 :: int) \<le> 90 \<and> (90 :: int) \<le> 365 \<and>
   schedule_flares 90 (snd (draw_baseline scenario_rng)) =
     Inr ([(40, 50)], scenario_rng\<lparr>pos := 12\<rparr>) \<and>
   (\<exists>d :: int. 7 \<le> d \<and> d \<le> 21 \<and> 50 = 40 + d \<and> (30 :: int) \<le> 40 \<and> (50 :: int) \<le> 90 - 30)"
proof -
  have a: "(90 :: int) \<le> 90" and b: "(90 :: int) \<le> 365" by simp_all
  from C7_flare_scheduling_never_fails [OF a b, of "snd (draw_baseline scenario_rng)"]
  show ?thesis by (simp add: scenario_schedule)
qed

text \<open>
  Claim C6. A record has \<open>in_flare = 1\<close> exactly when its day index lies inside some
  scheduled episode \<open>[start, end)\<close>. On a day outside every episode \<open>days_to_flare\<close> is
  \<open>-1\<close> or a positive count. Across a run of consecutive days \<open>k + 1, ..., k + m\<close> outside
  every episode, a count that is not \<open>-1\<close> on day \<open>k\<close> goes down by one per day, and stays
  a positive count, as the day index approaches the start of the episode it counts to;
  a counter that is \<open>-1\<close> stays \<open>-1\<close> on all later days.
\<close>

theorem C6_flare_label_and_countdown:
  assumes "generate_patient_timeline pid num_days dev g = Inr (rows, flare_periods, g')"
    and "k + m < length rows"
  shows "(in_flare (rows ! k) = 1 \<longleftrightarrow>
            (\<exists>(start, stop)\<in>set flare_periods. start \<le> int k \<and> int k < stop)) \<and>
         (in_flare (rows ! k) = 0 \<or> in_flare (rows ! k) = 1) \<and>
         (in_flare (rows ! k) = 0 \<longrightarrow>
            days_to_flare (rows ! k) = - 1 \<or> 0 < days_to_flare (rows ! k)) \<and>
         ((\<forall>j. 1 \<le> j \<and> j \<le> m \<longrightarrow> in_flare (rows ! (k + j)) = 0) \<and>
          days_to_flare (rows ! k) \<noteq> - 1 \<longrightarrow>
            days_to_flare (rows ! (k + m)) = days_to_flare (rows ! k) - int m \<and>
            0 < days_to_flare (rows ! (k + m))) \<and>
         (days_to_flare (rows ! k) = - 1 \<longrightarrow> days_to_flare (rows ! (k + m)) = - 1)"
proof -
  note run = assms(1)
  have k: "k < length rows" using assms(2) by simp
  have flare: "in_flare (rows ! i) = (if is_flare_day (int i) flare_periods then 1 else 0)"
    if "i < length rows" for i using timeline_labels(1) [OF run that] .
  have count: "days_to_flare (rows ! i) = days_to_next_flare (int i) flare_periods"
    if "i < length rows" for i using timeline_labels(2) [OF run that] .
  have wf: "\<forall>(s, e)\<in>set flare_periods. s < e" using run by (rule timeline_periods_wf)
  have c1: "in_flare (rows ! k) = 1 \<longleftrightarrow>
      (\<exists>(start, stop)\<in>set flare_periods. start \<le> int k \<and> int k < stop)"
    by (simp add: flare [OF k] is_flare_day_iff)
  have c2: "in_flare (rows ! k) = 0 \<or> in_flare (rows ! k) = 1"
    by (simp add: flare [OF k])
  have c3: "days_to_flare (rows ! k) = - 1 \<or> 0 < days_to_flare (rows ! k)"
    using days_to_next_flare_cases [of "int k" flare_periods] by (auto simp: count [OF k])
  have c4: "days_to_flare (rows ! (k + m)) = days_to_flare (rows ! k) - int m \<and>
      0 < days_to_flare (rows ! (k + m))"
    if nf: "\<forall>j. 1 \<le> j \<and> j \<le> m \<longrightarrow> in_flare (rows ! (k + j)) = 0"
      and ne: "days_to_flare (rows ! k) \<noteq> - 1"
  proof -
    have "\<not> is_flare_day (int k + int j) flare_periods" if j: "1 \<le> j \<and> j \<le> m" for j
    proof -
      from j assms(2) have lt: "k + j < length rows" by simp
      from nf j have "in_flare (rows ! (k + j)) = 0" by blast
      with flare [OF lt] show ?thesis by (simp split: if_splits)
    qed
    then have nf': "\<forall>j. 1 \<le> j \<and> j \<le> m \<longrightarrow> \<not> is_flare_day (int k + int j) flare_periods"
      by blast
    from ne have ne': "days_to_next_flare (int k) flare_periods \<noteq> - 1" by (simp add: count [OF k])
    from days_to_next_flare_run [OF wf ne' nf']
    have eq: "days_to_next_flare (int k + int m) flare_periods =
        days_to_next_flare (int k) flare_periods - int m"
      and pos: "days_to_next_flare (int k + int m) flare_periods \<noteq> - 1" by simp_all
    from days_to_next_flare_cases [of "int k + int m" flare_periods] pos
    have "0 < days_to_next_flare (int k + int m) flare_periods" by auto
    with eq show ?thesis by (simp add: count [OF k] count [OF assms(2)])
  qed
  have c5: "days_to_flare (rows ! (k + m)) = - 1" if "days_to_flare (rows ! k) = - 1"
  proof -
    from that have "days_to_next_flare (int k) flare_periods = - 1" by (simp add: count [OF k])
    then have "days_to_next_flare (int k + int m) flare_periods = - 1"
      by (rule days_to_next_flare_stays_none) simp
    then show ?thesis by (simp add: count [OF assms(2)])
  qed
  from c1 c2 c3 c4 c5 show ?thesis by blast
qed

theorem C6_flare_label_and_countdown_witness:
  "30 + 9 < length (rows_of scenario_run) \<and>
   (40, 50) \<in> set (periods_of scenario_run) \<and>
   in_flare (rows_of scenario_run ! 30) = 0 \<and>
   in_flare (rows_of scenario_run ! 39) = 0 \<and>
   days_to_flare (rows_of scenario_run ! 30) = 10 \<and>
   days_to_flare (rows_of scenario_run ! 39) = 1 \<and>
   in_flare (rows_of scenario_run ! 40) = 1"
proof -
  obtain rows g' where
    run: "generate_patient_timeline ''P001'' 90 ''Fitbit'' scenario_rng = Inr (rows, [(40, 50)], g')"
    and rows: "rows_of scenario_run = rows" and ps: "periods_of scenario_run = [(40, 50)]"
    and len: "length rows = 90"
    by (rule scenario_rows)
  have k: "30 + 9 < length rows" and k40: "40 + 0 < length rows" using len by simp_all
  have flare: "in_flare (rows ! i) = (if is_flare_day (int i) [(40, 50)] then 1 else 0)"
    if "i < length rows" for i using timeline_labels(1) [OF run that] .
  have nf: "\<forall>j. 1 \<le> j \<and> j \<le> 9 \<longrightarrow> in_flare (rows ! (30 + j)) = 0"
    using len by (auto simp: flare is_flare_day_iff)
  have d30: "days_to_flare (rows ! 30) = 10"
    using timeline_labels(2) [OF run, of 30] len by simp
  from C6_flare_label_and_countdown [OF run k] nf d30
  have "days_to_flare (rows ! (30 + 9)) = 1" and "in_flare (rows ! 30) = 0" by auto
  moreover from C6_flare_label_and_countdown [OF run k40]
  have "in_flare (rows ! 40) = 1" by simp
  moreover have "in_flare (rows ! 39) = 0" using nf by (simp add: flare len is_flare_day_iff)
  ultimately show ?thesis using rows ps len d30 by simp
qed

text \<open>
  Claim C9, as the specification states it: on a 90-day Fitbit timeline with the single
  episode \<open>[40, 50)\<close>, \<open>days_to_flare\<close> counts down from 49 at index 0. It does not: the
  counter is the distance to the start of the episode, which is 40 at index 0.
\<close>

theorem C9_countdown_starts_at_40_not_49:
  "periods_of scenario_run = [(40, 50)] \<and>
   length (rows_of scenario_run) = 90 \<and>
   device (rows_of scenario_run ! 0) = ''Fitbit'' \<and>
   days_to_flare (rows_of scenario_run ! 0) = 40 \<and>
   days_to_flare (rows_of scenario_run ! 0) \<noteq> 49"
proof -
  obtain rows g' where
    run: "generate_patient_timeline ''P001'' 90 ''Fitbit'' scenario_rng = Inr (rows, [(40, 50)], g')"
    and rows: "rows_of scenario_run = rows" and ps: "periods_of scenario_run = [(40, 50)]"
    and len: "length rows = 90"
    by (rule scenario_rows)
  have k: "0 < length rows" using len by simp
  from timeline_labels(2,5) [OF run k] show ?thesis using rows ps len by simp
qed

text \<open>
  Claim C9, amended. On a 90-day Fitbit timeline whose only scheduled episode is the
  10-day interval starting at day 40, there are 90 rows; \<open>in_flare = 1\<close> exactly for the
  day indices in \<open>[40, 50)\<close>; \<open>days_to_flare\<close> counts down from 40 at index 0 to 1 at
  index 39 and is \<open>-1\<close> from index 40 on; and oxygen saturation is not-a-number in all
  90 rows.
\<close>

theorem C9_fitbit_scenario:
  assumes "generate_patient_timeline pid 90 ''Fitbit'' g = Inr (rows, [(40, 50)], g')"
  shows "length rows = 90 \<and>
         (\<forall>k<90. in_flare (rows ! k) = (if 40 \<le> k \<and> k < 50 then 1 else 0) \<and>
                  days_to_flare (rows ! k) = (if k < 40 then 40 - int k else - 1) \<and>
                  spo2 (rows ! k) = NaN)"
proof -
  have len: "length rows = 90" using timeline_length [OF assms] by simp
  have "in_flare (rows ! k) = (if 40 \<le> k \<and> k < 50 then 1 else 0) \<and>
        days_to_flare (rows ! k) = (if k < 40 then 40 - int k else - 1) \<and>
        spo2 (rows ! k) = NaN" if "k < 90" for k
  proof -
    from that len have k: "k < length rows" by simp
    from timeline_row [OF assms k] obtain v g2 f t where
      row: "rows ! k = store_row pid (start_date + int k) ''Fitbit''
              (fst (missingness \<lparr>hr_hours_per_day = 19, hrv_hours_per_day = 764 / 100,
                 spo2_hours_per_day = 0, has_spo2 = False\<rparr> v g2)) f t"
      by (auto simp: fitbit_lookup)
    have "spo2 (rows ! k) = NaN"
      unfolding row by (simp add: store_row_spo2_nan missingness_no_sensor)
    with timeline_labels(1,2) [OF assms k] show ?thesis
      by (auto simp: is_flare_day_def)
  qed
  with len show ?thesis by blast
qed

theorem C9_fitbit_scenario_witness:
  "length (rows_of scenario_run) = 90 \<and>
   periods_of scenario_run = [(40, 50)] \<and>
   in_flare (rows_of scenario_run ! 39) = 0 \<and>
   in_flare (rows_of scenario_run ! 40) = 1 \<and>
   in_flare (rows_of scenario_run ! 49) = 1 \<and>
   in_flare (rows_of scenario_run ! 50) = 0 \<and>
   days_to_flare (rows_of scenario_run ! 0) = 40 \<and>
   days_to_flare (rows_of scenario_run ! 39) = 1 \<and>
   days_to_flare (rows_of scenario_run ! 40) = - 1 \<and>
   spo2 (rows_of scenario_run ! 0) = NaN \<and>
   spo2 (rows_of scenario_run ! 89) = NaN"
proof -
  obtain rows g' where
    run: "generate_patient_timeline ''P001'' 90 ''Fitbit'' scenario_rng = Inr (rows, [(40, 50)], g')"
    and rows: "rows_of scenario_run = rows" and ps: "periods_of scenario_run = [(40, 50)]"
    by (rule scenario_rows)
  from C9_fitbit_scenario [OF run] show ?thesis using rows ps by simp
qed

text \<open>
  Claim C2, as the specification states it, promises \<open>num_days\<close> records for every
  \<open>num_days\<close>. A 60-day timeline for which flares are drawn returns no record at all:
  the window for the start of a 10-day episode is \<open>[30, 20)\<close>, and the draw raises.
\<close>

theorem C2_short_timeline_raises:
  "generate_patient_timeline ''P001'' 60 ''Fitbit'' scenario_rng = Inl ValueError"
proof -
  obtain ds where "make_dates 60 = Inr ds" using make_dates_total [of 60] by auto
  then show ?thesis
    by (simp add: generate_patient_timeline_def split_beta Let_def scenario_short_schedule)
qed

text \<open>
  Claim C2, amended. For every patient identifier, every device of the table, and every
  \<open>num_days\<close> from 82 to 2913174 (which includes the range \<open>[90, 365]\<close> to which the
  caller clamps), the generator returns exactly \<open>num_days\<close> records; record \<open>k\<close> carries
  the date \<open>k\<close> days after the epoch 2024-01-01 (ordinal 738886), so the dates are ordered
  and contiguous without gaps or duplicates; and in every record, also where the
  physiological channels are absent, the label \<open>in_flare\<close> is the integer 0 or 1 and
  \<open>days_to_flare\<close> is the integer computed from the episodes.
\<close>

theorem C2_timeline_shape:
  assumes "82 \<le> num_days" and "num_days \<le> 2913174" and "device_lookup dev = Inr dc"
  shows "\<exists>rows flare_periods g'.
           generate_patient_timeline pid num_days dev g = Inr (rows, flare_periods, g') \<and>
           length rows = nat num_days \<and>
           (\<forall>k<nat num_days.
              date (rows ! k) = ymd2ord 2024 1 1 + int k \<and>
              date (rows ! k) = 738886 + int k \<and>
              patient_id (rows ! k) = pid \<and> device (rows ! k) = dev \<and>
              (in_flare (rows ! k) = 0 \<or> in_flare (rows ! k) = 1) \<and>
              days_to_flare (rows ! k) = days_to_next_flare (int k) flare_periods)"
proof -
  from timeline_total [OF assms, of pid g] obtain rows ps g' where
    run: "generate_patient_timeline pid num_days dev g = Inr (rows, ps, g')" by blast
  have len: "length rows = nat num_days" using run by (rule timeline_length)
  have "date (rows ! k) = ymd2ord 2024 1 1 + int k \<and>
        date (rows ! k) = 738886 + int k \<and>
        patient_id (rows ! k) = pid \<and> device (rows ! k) = dev \<and>
        (in_flare (rows ! k) = 0 \<or> in_flare (rows ! k) = 1) \<and>
        days_to_flare (rows ! k) = days_to_next_flare (int k) ps" if "k < nat num_days" for k
  proof -
    from that len have k: "k < length rows" by simp
    from timeline_labels [OF run k] show ?thesis
      using start_date_eq by (simp add: start_date_def)
  qed
  with run len show ?thesis by blast
qed

theorem C2_timeline_shape_witness:
  "(82 :: int) \<le> 90 \<and> (90 :: int) \<le> 2913174 \<and>
   device_lookup ''Fitbit'' =
     Inr \<lparr>hr_hours_per_day = 19, hrv_hours_per_day = 764 / 100,
          spo2_hours_per_day = 0, has_spo2 = False\<rparr> \<and>
   (\<exists>rows flare_periods g'.
      generate_patient_timeline ''P001'' 90 ''Fitbit'' scenario_rng = Inr (rows, flare_periods, g') \<and>
      length rows = 90 \<and> date (rows ! 0) = 738886 \<and> date (rows ! 89) = 738975 \<and>
      rhr (rows ! 0) = Fin 40 \<and> sleep_hours (rows ! 0) = NaN \<and>
      in_flare (rows ! 0) = 0 \<and> days_to_flare (rows ! 0) = 40)"
proof -
  have a: "(82 :: int) \<le> 90" and b: "(90 :: int) \<le> 2913174" by simp_all
  from C2_timeline_shape [OF a b fitbit_lookup, of "''P001''" scenario_rng]
  obtain rows ps g' where
    run: "generate_patient_timeline ''P001'' 90 ''Fitbit'' scenario_rng = Inr (rows, ps, g')"
    and len: "length rows = 90"
    and all: "\<forall>k<90. date (rows ! k) = 738886 + int k \<and>
        (in_flare (rows ! k) = 0 \<or> in_flare (rows ! k) = 1) \<and>
        days_to_flare (rows ! k) = days_to_next_flare (int k) ps"
    by auto
  from timeline_rows [OF run] scenario_schedule have ps: "ps = [(40, 50)]" by auto
  have k: "0 < length rows" using len by simp
  have row0: "rows ! 0 = store_row ''P001'' start_date ''Fitbit'' all_nan False 40"
    using scenario_row [OF run [unfolded ps] k]
    by (simp add: is_flare_day_def missingness_missed scenario_rng_def scenario_source_def)
  from all have "date (rows ! 0) = 738886" "date (rows ! 89) = 738975" by simp_all
  moreover have "rhr (rows ! 0) = Fin 40" "sleep_hours (rows ! 0) = NaN"
    "in_flare (rows ! 0) = 0" "days_to_flare (rows ! 0) = 40"
    unfolding row0 store_row_all_nan by simp_all
  ultimately show ?thesis using run len a b fitbit_lookup by blast
qed

text \<open>
  Claim C1 says that on a day whose missingness draw exceeds the coverage fraction of the
  device, all eight physiological channels of the stored record are not-a-number. The
  code sets the eight variables to not-a-number (lines 199-208), but stores five of them
  through \<^verbatim>\<open>max(floor, x)\<close> (lines 218-222), which returns the floor when \<open>x\<close> is
  not-a-number. Day 0 of the concrete Fitbit run is such a day (\<open>0.9 > 19/24\<close>): the
  record holds the floors 40, 50, 5, 5 and 0, and only \<open>spo2\<close>, \<open>sleep_hours\<close> and
  \<open>sleep_efficiency\<close> are not-a-number.
\<close>

theorem C1_missed_day_stores_floor_values:
  "length (rows_of scenario_run) = 90 \<and>
   device (rows_of scenario_run ! 0) = ''Fitbit'' \<and>
   (19 :: real) / 24 < unif (scenario_source 20) \<and>
   rhr (rows_of scenario_run ! 0) = Fin 40 \<and>
   hr (rows_of scenario_run ! 0) = Fin 50 \<and>
   hrv_sdnn (rows_of scenario_run ! 0) = Fin 5 \<and>
   hrv_rmssd (rows_of scenario_run ! 0) = Fin 5 \<and>
   steps (rows_of scenario_run ! 0) = Fin 0 \<and>
   spo2 (rows_of scenario_run ! 0) = NaN \<and>
   sleep_hours (rows_of scenario_run ! 0) = NaN \<and>
   sleep_efficiency (rows_of scenario_run ! 0) = NaN"
proof -
  obtain rows g' where
    run: "generate_patient_timeline ''P001'' 90 ''Fitbit'' scenario_rng = Inr (rows, [(40, 50)], g')"
    and rows: "rows_of scenario_run = rows" and len: "length rows = 90"
    by (rule scenario_rows)
  have k: "0 < length rows" using len by simp
  have miss: "(19 :: real) / 24 < unif (scenario_source 20)"
    by (simp add: scenario_source_def)
  have "hr_hours_per_day \<lparr>hr_hours_per_day = 19, hrv_hours_per_day = 764 / 100,
          spo2_hours_per_day = 0, has_spo2 = False\<rparr> / 24
        < unif (source (scenario_rng\<lparr>pos := 12\<rparr>) (pos (scenario_rng\<lparr>pos := 12\<rparr>) + 9 * 0 + 8))"
    using miss by (simp add: scenario_rng_def)
  from missed_day_row [OF run k fitbit_lookup scenario_schedule this]
  show ?thesis using rows len miss by simp
qed

text \<open>
  Claim C4. For every day index \<open>k\<close> of a generated timeline, the values before the noise
  is added are the patient baseline transformed by the scalar \<open>progress\<close>, where
  \<open>progress = 1 - d / 49\<close> if the distance \<open>d\<close> to the next flare is positive and at most
  49 (also on a flare day), else \<open>1\<close> on a flare day, else \<open>0\<close>. The progress lies in
  \<open>[0, 1]\<close>. The transform is \<open>baseline + change * progress\<close> for \<open>rhr\<close> (\<open>+8\<close>), \<open>hr\<close>
  (\<open>+10\<close>), \<open>spo2\<close> (\<open>-0.2\<close>), \<open>sleep_hours\<close> (\<open>-1\<close>) and \<open>sleep_efficiency\<close> (\<open>-15\<close>),
  and \<open>baseline * (1 + change * progress)\<close> for \<open>hrv_sdnn\<close> (\<open>-0.30\<close>), \<open>hrv_rmssd\<close>
  (\<open>-0.25\<close>) and \<open>steps\<close> (\<open>-0.40\<close>).

  The statement is about the rows that the generator returns. Row \<open>k\<close> is what the store
  step makes of these values after the noise and the missingness step, and on a day that
  the device measured each stored channel is the clamped sum of the transformed baseline
  and that day's noise draw. Here \<open>baseline\<close> is the patient baseline drawn at the start
  of the call, and \<open>g2\<close> is the state of the random stream after the flares were scheduled.
\<close>

theorem C4_pre_noise_values:
  assumes "generate_patient_timeline pid num_days dev g = Inr (rows, flare_periods, g')"
    and "k < length rows"
  shows "\<exists>dc g2.
           device_lookup dev = Inr dc \<and>
           schedule_flares num_days (snd (draw_baseline g)) = Inr (flare_periods, g2) \<and>
           (let baseline = fst (draw_baseline g);
                d = days_to_next_flare (int k) flare_periods;
                flare_day = (\<exists>(start, stop)\<in>set flare_periods. start \<le> int k \<and> int k < stop);
                progress =
                  (if 0 < d \<and> d \<le> 49 then 1 - real_of_int d / 49
                   else if flare_day then 1 else 0);
                v = \<lparr>rhr = rhr baseline + 8 * progress,
                     hr = hr baseline + 10 * progress,
                     hrv_sdnn = hrv_sdnn baseline * (1 + (- (30 / 100)) * progress),
                     hrv_rmssd = hrv_rmssd baseline * (1 + (- (25 / 100)) * progress),
                     steps = steps baseline * (1 + (- (40 / 100)) * progress),
                     spo2 = spo2 baseline + (- (2 / 10)) * progress,
                     sleep_hours = sleep_hours baseline + (- 1) * progress,
                     sleep_efficiency = sleep_efficiency baseline + (- 15) * progress\<rparr>;
                noise = (\<lambda>i. gauss (source g2 (pos g2 + 9 * k + i)))
            in 0 \<le> progress \<and> progress \<le> 1 \<and>
               days_to_flare (rows ! k) = d \<and>
               in_flare (rows ! k) = (if flare_day then 1 else 0) \<and>
               rows ! k =
                 store_row pid (start_date + int k) dev
                   (fst (missingness dc
                      (fst (daily_noise v (g2\<lparr>pos := pos g2 + 9 * k\<rparr>)))
                      (g2\<lparr>pos := pos g2 + 9 * k + 8\<rparr>)))
                   flare_day d \<and>
               (\<not> hr_hours_per_day dc / 24 < unif (source g2 (pos g2 + 9 * k + 8)) \<longrightarrow>
                  rhr (rows ! k) = py_max (Fin 40) (Fin (rhr v + 2 * noise 0)) \<and>
                  hr (rows ! k) = py_max (Fin 50) (Fin (hr v + 3 * noise 1)) \<and>
                  hrv_sdnn (rows ! k) = py_max (Fin 5) (Fin (hrv_sdnn v + 3 * noise 2)) \<and>
                  hrv_rmssd (rows ! k) = py_max (Fin 5) (Fin (hrv_rmssd v + 25 / 10 * noise 3)) \<and>
                  steps (rows ! k) = py_max (Fin 0) (Fin (steps v + 1000 * noise 4)) \<and>
                  spo2 (rows ! k) =
                    (if has_spo2 dc then np_clip (Fin (spo2 v + 3 / 10 * noise 5)) 90 100
                     else NaN) \<and>
                  sleep_hours (rows ! k) = np_clip (Fin (sleep_hours v + 1 / 2 * noise 6)) 3 12 \<and>
                  sleep_efficiency (rows ! k) =
                    np_clip (Fin (sleep_efficiency v + 3 * noise 7)) 40 100))"
proof -
  from timeline_row [OF assms] obtain dc g2 where
    dc: "device_lookup dev = Inr dc" and
    sch: "schedule_flares num_days (snd (draw_baseline g)) = Inr (flare_periods, g2)" and
    row: "rows ! k =
       store_row pid (start_date + int k) dev
         (fst (missingness dc
            (fst (daily_noise (pre_noise (fst (draw_baseline g)) flare_periods (int k))
               (g2\<lparr>pos := pos g2 + 9 * k\<rparr>)))
            (g2\<lparr>pos := pos g2 + 9 * k + 8\<rparr>)))
         (is_flare_day (int k) flare_periods) (days_to_next_flare (int k) flare_periods)"
    by blast
  define baseline where "baseline = fst (draw_baseline g)"
  define d where "d = days_to_next_flare (int k) flare_periods"
  define flare_day where
    "flare_day \<longleftrightarrow> (\<exists>(start, stop)\<in>set flare_periods. start \<le> int k \<and> int k < stop)"
  define progress where
    "progress = (if 0 < d \<and> d \<le> 49 then 1 - real_of_int d / 49 else if flare_day then 1 else 0)"
  define v where
    "v = \<lparr>rhr = rhr baseline + 8 * progress,
          hr = hr baseline + 10 * progress,
          hrv_sdnn = hrv_sdnn baseline * (1 + (- (30 / 100)) * progress),
          hrv_rmssd = hrv_rmssd baseline * (1 + (- (25 / 100)) * progress),
          steps = steps baseline * (1 + (- (40 / 100)) * progress),
          spo2 = spo2 baseline + (- (2 / 10)) * progress,
          sleep_hours = sleep_hours baseline + (- 1) * progress,
          sleep_efficiency = sleep_efficiency baseline + (- 15) * progress\<rparr>"
  from pre_noise_explicit [of "int k" flare_periods baseline]
  have range: "0 \<le> progress \<and> progress \<le> 1"
    and pn: "pre_noise baseline flare_periods (int k) = v"
    unfolding Let_def d_def [symmetric] flare_day_def [symmetric] progress_def [symmetric]
      v_def [symmetric]
    by simp_all
  have fd: "is_flare_day (int k) flare_periods = flare_day"
    by (simp add: is_flare_day_iff flare_day_def)
  have row': "rows ! k =
       store_row pid (start_date + int k) dev
         (fst (missingness dc
            (fst (daily_noise v (g2\<lparr>pos := pos g2 + 9 * k\<rparr>)))
            (g2\<lparr>pos := pos g2 + 9 * k + 8\<rparr>)))
         flare_day d"
    using row unfolding baseline_def [symmetric] pn fd d_def [symmetric] .
  have labels: "days_to_flare (rows ! k) = d" "in_flare (rows ! k) = (if flare_day then 1 else 0)"
    unfolding row' by (simp_all add: store_row_labels)
  have measured:
    "rhr (rows ! k) = py_max (Fin 40) (Fin (rhr v + 2 * gauss (source g2 (pos g2 + 9 * k + 0)))) \<and>
     hr (rows ! k) = py_max (Fin 50) (Fin (hr v + 3 * gauss (source g2 (pos g2 + 9 * k + 1)))) \<and>
     hrv_sdnn (rows ! k) =
       py_max (Fin 5) (Fin (hrv_sdnn v + 3 * gauss (source g2 (pos g2 + 9 * k + 2)))) \<and>
     hrv_rmssd (rows ! k) =
       py_max (Fin 5) (Fin (hrv_rmssd v + 25 / 10 * gauss (source g2 (pos g2 + 9 * k + 3)))) \<and>
     steps (rows ! k) =
       py_max (Fin 0) (Fin (steps v + 1000 * gauss (source g2 (pos g2 + 9 * k + 4)))) \<and>
     spo2 (rows ! k) =
       (if has_spo2 dc
        then np_clip (Fin (spo2 v + 3 / 10 * gauss (source g2 (pos g2 + 9 * k + 5)))) 90 100
        else NaN) \<and>
     sleep_hours (rows ! k) =
       np_clip (Fin (sleep_hours v + 1 / 2 * gauss (source g2 (pos g2 + 9 * k + 6)))) 3 12 \<and>
     sleep_efficiency (rows ! k) =
       np_clip (Fin (sleep_efficiency v + 3 * gauss (source g2 (pos g2 + 9 * k + 7)))) 40 100"
    if m: "\<not> hr_hours_per_day dc / 24 < unif (source g2 (pos g2 + 9 * k + 8))"
  proof -
    have "fst (missingness dc (fst (daily_noise v (g2\<lparr>pos := pos g2 + 9 * k\<rparr>)))
            (g2\<lparr>pos := pos g2 + 9 * k + 8\<rparr>)) =
          (if has_spo2 dc then as_floats (fst (daily_noise v (g2\<lparr>pos := pos g2 + 9 * k\<rparr>)))
           else (as_floats (fst (daily_noise v (g2\<lparr>pos := pos g2 + 9 * k\<rparr>))))\<lparr>spo2 := NaN\<rparr>)"
      by (rule missingness_measured_values) (use m in simp)
    then show ?thesis
      unfolding row' by (simp only: store_row_measured daily_noise_values) simp
  qed
  show ?thesis
    apply (rule exI [of _ dc], rule exI [of _ g2])
    unfolding Let_def baseline_def [symmetric] d_def [symmetric] flare_day_def [symmetric]
      progress_def [symmetric] v_def [symmetric]
    using dc sch range labels row' measured by blast
qed

theorem C4_pre_noise_values_witness:
  "40 < length (rows_of scenario_run) \<and>
   rhr (fst (draw_baseline scenario_rng)) = 61 \<and>
   days_to_flare (rows_of scenario_run ! 1) = 39 \<and>
   in_flare (rows_of scenario_run ! 1) = 0 \<and>
   unif (scenario_source 29) \<le> 19 / 24 \<and>
   gauss (scenario_source 21) = - 1 / 4 \<and>
   rhr (rows_of scenario_run ! 1) = Fin (61 + 8 * (1 - 39 / 49) + 2 * (- 1 / 4)) \<and>
   days_to_flare (rows_of scenario_run ! 40) = - 1 \<and>
   in_flare (rows_of scenario_run ! 40) = 1 \<and>
   unif (scenario_source 380) \<le> 19 / 24 \<and>
   gauss (scenario_source 372) = 0 \<and>
   rhr (rows_of scenario_run ! 40) = Fin (61 + 8 * 1 + 2 * 0)"
proof -
  obtain rows g' where
    run: "generate_patient_timeline ''P001'' 90 ''Fitbit'' scenario_rng = Inr (rows, [(40, 50)], g')"
    and rows: "rows_of scenario_run = rows" and len: "length rows = 90"
    by (rule scenario_rows)
  have k1: "1 < length rows" and k40: "40 < length rows" using len by simp_all
  have draws: "unif (scenario_source 29) \<le> 19 / 24" "gauss (scenario_source 21) = - 1 / 4"
    "unif (scenario_source 380) \<le> 19 / 24" "gauss (scenario_source 372) = 0"
    by (simp_all add: scenario_source_def)
  have bl: "rhr (fst (draw_baseline scenario_rng)) = 61" by (simp add: scenario_baseline)
  have src: "source scenario_rng = scenario_source" "pos scenario_rng = 0"
    by (simp_all add: scenario_rng_def)
  from C4_pre_noise_values [OF run k1]
  have day1: "days_to_flare (rows ! 1) = 39 \<and> in_flare (rows ! 1) = 0 \<and>
      rhr (rows ! 1) = Fin (61 + 8 * (1 - 39 / 49) + 2 * (- 1 / 4))"
    by (auto simp: Let_def fitbit_lookup scenario_schedule scenario_baseline src
        scenario_source_def py_max_def)
  from C4_pre_noise_values [OF run k40]
  have day40: "days_to_flare (rows ! 40) = - 1 \<and> in_flare (rows ! 40) = 1 \<and>
      rhr (rows ! 40) = Fin (61 + 8 * 1 + 2 * 0)"
    by (auto simp: Let_def fitbit_lookup scenario_schedule scenario_baseline src
        scenario_source_def py_max_def)
  from day1 day40 draws bl rows k40 show ?thesis by simp
qed

end
